theory Spec2Isabelle
  imports Main "HOL-Library.Sublist"
begin

section \<open>Strings\<close>

text \<open>
  The program's strings are JavaScript strings. They are modelled as \<^typ>\<open>string\<close>, lists of
  8-bit characters, and the string methods the program calls (\<^verbatim>\<open>toLowerCase\<close>,
  \<^verbatim>\<open>includes\<close>, \<^verbatim>\<open>trim\<close>, \<^verbatim>\<open>parseInt\<close>, \<^verbatim>\<open>toString\<close>) are modelled on ASCII:
  case folding maps \<open>A\<close>..\<open>Z\<close> to \<open>a\<close>..\<open>z\<close> and leaves every other character alone, and white
  space is TAB, LF, VT, FF, CR and SPACE. Characters beyond ASCII are outside the model.
\<close>

definition lower_char :: "char \<Rightarrow> char" where
  "lower_char c =
     (case map_of (zip ''ABCDEFGHIJKLMNOPQRSTUVWXYZ'' ''abcdefghijklmnopqrstuvwxyz'') c of
        Some l \<Rightarrow> l
      | None \<Rightarrow> c)"

text \<open>\<^verbatim>\<open>String.prototype.toLowerCase\<close>.\<close>

definition toLowerCase :: "string \<Rightarrow> string" where
  "toLowerCase s = map lower_char s"

text \<open>\<^verbatim>\<open>s.startsWith(q)\<close> and \<^verbatim>\<open>s.includes(q)\<close>: the search string occurs at the front of,
  respectively somewhere in, the receiver.\<close>

fun startsWith :: "string \<Rightarrow> string \<Rightarrow> bool" where
  "startsWith s [] = True"
| "startsWith [] (c # q) = False"
| "startsWith (a # s) (c # q) = (a = c \<and> startsWith s q)"

fun str_includes :: "string \<Rightarrow> string \<Rightarrow> bool" where
  "str_includes [] q = (q = [])"
| "str_includes (a # s) q = (startsWith (a # s) q \<or> str_includes s q)"

definition isWhiteSpace :: "char \<Rightarrow> bool" where
  "isWhiteSpace c = (c \<in> set [CHR 0x09, CHR 0x0A, CHR 0x0B, CHR 0x0C, CHR 0x0D, CHR '' ''])"

text \<open>\<^verbatim>\<open>String.prototype.trim\<close>: white space is removed at both ends.\<close>

definition trim :: "string \<Rightarrow> string" where
  "trim s = rev (dropWhile isWhiteSpace (rev (dropWhile isWhiteSpace s)))"

text \<open>
  \<^verbatim>\<open>parseInt(string)\<close> with no radix, after ECMAScript: leading white space is skipped, one
  sign is read, a \<^verbatim>\<open>0x\<close> or \<^verbatim>\<open>0X\<close> prefix selects radix 16 (radix 10 otherwise), and the longest
  run of digits of that radix is the number. With no digit the result is \<^verbatim>\<open>NaN\<close>, here
  \<^term>\<open>None\<close>. Numbers are the integers: the identifiers of the program are database keys,
  far below the range where a JavaScript number stops being exact.
\<close>

definition digitValue :: "nat \<Rightarrow> char \<Rightarrow> nat option" where
  "digitValue radix c =
     (let n = (of_char c :: nat);
          v = (if 48 \<le> n \<and> n \<le> 57 then Some (n - 48)
               else if 97 \<le> n \<and> n \<le> 122 then Some (n - 87)
               else if 65 \<le> n \<and> n \<le> 90 then Some (n - 55)
               else None)
      in case v of
           None \<Rightarrow> None
         | Some d \<Rightarrow> if d < radix then Some d else None)"

fun digitsPrefix :: "nat \<Rightarrow> string \<Rightarrow> nat list" where
  "digitsPrefix radix [] = []"
| "digitsPrefix radix (c # cs) =
     (case digitValue radix c of
        None \<Rightarrow> []
      | Some d \<Rightarrow> d # digitsPrefix radix cs)"

definition mathInt :: "nat \<Rightarrow> nat list \<Rightarrow> nat" where
  "mathInt radix ds = foldl (\<lambda>acc d. acc * radix + d) 0 ds"

definition hasHexPrefix :: "string \<Rightarrow> bool" where
  "hasHexPrefix s = (2 \<le> length s \<and> (take 2 s = ''0x'' \<or> take 2 s = ''0X''))"

definition parseInt :: "string \<Rightarrow> int option" where
  "parseInt str =
     (let s = dropWhile isWhiteSpace str;
          sign = (if s \<noteq> [] \<and> hd s = CHR ''-'' then - 1 else (1 :: int));
          s1 = (if s \<noteq> [] \<and> (hd s = CHR ''+'' \<or> hd s = CHR ''-'') then tl s else s);
          radix = (if hasHexPrefix s1 then 16 else 10);
          s2 = (if hasHexPrefix s1 then drop 2 s1 else s1);
          z = digitsPrefix radix s2
      in if z = [] then None else Some (sign * int (mathInt radix z)))"

text \<open>\<^verbatim>\<open>Number.prototype.toString\<close> on an integer: its decimal digits, after a minus sign when it
  is negative.\<close>

definition digitChar :: "nat \<Rightarrow> char" where
  "digitChar d = char_of (48 + d)"

fun natToDigits :: "nat \<Rightarrow> string" where
  "natToDigits n =
     (if n < 10 then [digitChar n] else natToDigits (n div 10) @ [digitChar (n mod 10)])"

declare natToDigits.simps [simp del]

definition toString :: "int \<Rightarrow> string" where
  "toString i = (if i < 0 then CHR ''-'' # natToDigits (nat (- i)) else natToDigits (nat i))"

section \<open>Data model\<close>

text \<open>The interfaces \<^verbatim>\<open>Language\<close>, \<^verbatim>\<open>Tag\<close> and \<^verbatim>\<open>Snippet\<close> of the dashboard. An optional
  field is an \<^typ>\<open>'a option\<close>; an element of \<^verbatim>\<open>snippet_tags\<close> is an object with the one field
  \<^verbatim>\<open>tags\<close>. Identifiers are the integer keys of the tables. Field names that several
  interfaces share are written with the name of the record where they are not the fields of
  \<open>Tag\<close> or \<open>Snippet\<close>.\<close>

record Language =
  id_linguagem :: int
  nome :: string

text \<open>The \<^verbatim>\<open>formData\<close> of the snippet form. Its \<^verbatim>\<open>id_linguagem\<close> is set from \<^verbatim>\<open>parseInt\<close>, so
  it can be \<^verbatim>\<open>NaN\<close>, here \<^term>\<open>None\<close>.\<close>

record FormData =
  titulo :: string
  descricao :: string
  codigo :: string
  id_linguagem :: "int option"

record Tag =
  id_tag :: int
  nome :: string

record SnippetTag =
  tags :: Tag

record Snippet =
  id_snippet :: int
  titulo :: string
  descricao :: "string option"
  codigo :: string
  criado_em :: string
  id_linguagem :: int
  linguagens :: Language
  snippet_tags :: "SnippetTag list"

section \<open>The snippet filter\<close>

text \<open>
  \<^verbatim>\<open>applyFilters\<close> of the dashboard narrows a copy of \<^verbatim>\<open>snippets\<close> in three steps and stores
  the result with \<^verbatim>\<open>setFilteredSnippets\<close>. Each step is an \<^verbatim>\<open>if\<close> around an
  \<^verbatim>\<open>Array.prototype.filter\<close>; the model names the three predicates and the three steps, and
  \<open>applyFilters\<close> returns the list that is stored.

  In the text predicate, \<^verbatim>\<open>snippet.descricao?.toLowerCase().includes(..)\<close> is \<^verbatim>\<open>undefined\<close>,
  which counts as false under \<^verbatim>\<open>||\<close>, when the snippet has no description.
\<close>

definition textMatch :: "string \<Rightarrow> Snippet \<Rightarrow> bool" where
  "textMatch searchTerm snippet =
     (str_includes (toLowerCase (titulo snippet)) (toLowerCase searchTerm) \<or>
      (case descricao snippet of
         None \<Rightarrow> False
       | Some d \<Rightarrow> str_includes (toLowerCase d) (toLowerCase searchTerm)) \<or>
      str_includes (toLowerCase (codigo snippet)) (toLowerCase searchTerm))"

definition textStep :: "string \<Rightarrow> Snippet list \<Rightarrow> Snippet list" where
  "textStep searchTerm filtered =
     (if searchTerm \<noteq> [] then filter (textMatch searchTerm) filtered else filtered)"

text \<open>\<^verbatim>\<open>snippet.id_linguagem === parseInt(selectedLanguage)\<close>: strict equality with \<^verbatim>\<open>NaN\<close> is
  false.\<close>

definition languageMatch :: "string \<Rightarrow> Snippet \<Rightarrow> bool" where
  "languageMatch selectedLanguage snippet =
     (case parseInt selectedLanguage of
        None \<Rightarrow> False
      | Some n \<Rightarrow> id_linguagem snippet = n)"

definition languageStep :: "string \<Rightarrow> Snippet list \<Rightarrow> Snippet list" where
  "languageStep selectedLanguage filtered =
     (if selectedLanguage \<noteq> [] \<and> selectedLanguage \<noteq> ''all''
      then filter (languageMatch selectedLanguage) filtered
      else filtered)"

definition tagMatch :: "Tag list \<Rightarrow> Snippet \<Rightarrow> bool" where
  "tagMatch selectedTags snippet =
     list_all
       (\<lambda>selectedTag. list_ex (\<lambda>st. id_tag (tags st) = id_tag selectedTag) (snippet_tags snippet))
       selectedTags"

definition tagStep :: "Tag list \<Rightarrow> Snippet list \<Rightarrow> Snippet list" where
  "tagStep selectedTags filtered =
     (if length selectedTags > 0 then filter (tagMatch selectedTags) filtered else filtered)"

definition applyFilters :: "Snippet list \<Rightarrow> string \<Rightarrow> string \<Rightarrow> Tag list \<Rightarrow> Snippet list" where
  "applyFilters snippets searchTerm selectedLanguage selectedTags =
     tagStep selectedTags (languageStep selectedLanguage (textStep searchTerm snippets))"

text \<open>The words of the specification for the text filter. Two characters are the same
  letter up to case when they are equal, or one is a capital letter \<open>A\<close>..\<open>Z\<close> (codes 65 to 90)
  and the other is the small letter that belongs to it, 32 codes further on. A field contains
  the query as a case-insensitive substring when some segment of the field is the query
  letter for letter, up to the case of each letter.\<close>

definition isUpperCaseOf :: "char \<Rightarrow> char \<Rightarrow> bool" where
  "isUpperCaseOf u l =
     (65 \<le> (of_char u :: nat) \<and> (of_char u :: nat) \<le> 90 \<and> (of_char l :: nat) = of_char u + 32)"

definition sameLetter :: "char \<Rightarrow> char \<Rightarrow> bool" where
  "sameLetter a b = (a = b \<or> isUpperCaseOf a b \<or> isUpperCaseOf b a)"

definition containsIgnoringCase :: "string \<Rightarrow> string \<Rightarrow> bool" where
  "containsIgnoringCase field query =
     (\<exists>before seg after. field = before @ seg @ after \<and> list_all2 sameLetter seg query)"

definition specTextMatch :: "string \<Rightarrow> Snippet \<Rightarrow> bool" where
  "specTextMatch query snippet =
     (containsIgnoringCase (titulo snippet) query \<or>
      (\<exists>d. descricao snippet = Some d \<and> containsIgnoringCase d query) \<or>
      containsIgnoringCase (codigo snippet) query)"

text \<open>The texts on which the model of the string methods is the program's: those made of
  ASCII characters only.\<close>

definition isAscii :: "string \<Rightarrow> bool" where
  "isAscii s = list_all (\<lambda>c. (of_char c :: nat) < 128) s"

definition asciiSnippet :: "Snippet \<Rightarrow> bool" where
  "asciiSnippet snippet =
     (isAscii (titulo snippet) \<and>
      (case descricao snippet of None \<Rightarrow> True | Some d \<Rightarrow> isAscii d) \<and>
      isAscii (codigo snippet))"

text \<open>The words of the specification for the tag filter: the identifiers of the tags a snippet
  carries, and the identifiers of the tags the filter requires.\<close>

definition snippetTagIds :: "Snippet \<Rightarrow> int set" where
  "snippetTagIds snippet = (\<lambda>st. id_tag (tags st)) ` set (snippet_tags snippet)"

definition requiredTagIds :: "Tag list \<Rightarrow> int set" where
  "requiredTagIds selectedTags = id_tag ` set selectedTags"

text \<open>The scenario of the specification: a Python snippet titled Sort with no tag and a Go
  snippet titled Map with the tag util.\<close>

definition tagUtil :: Tag where
  "tagUtil = \<lparr>id_tag = 7, nome = ''util''\<rparr>"

definition snippetSort :: Snippet where
  "snippetSort =
     \<lparr>id_snippet = 1, titulo = ''Sort'', descricao = None, codigo = ''xs.sort()'',
      criado_em = ''2024-01-02'', id_linguagem = 1,
      linguagens = \<lparr>Language.id_linguagem = 1, Language.nome = ''Python''\<rparr>,
      snippet_tags = []\<rparr>"

definition snippetMap :: Snippet where
  "snippetMap =
     \<lparr>id_snippet = 2, titulo = ''Map'', descricao = Some ''Keys of a map'', codigo = ''m[k] = v'',
      criado_em = ''2024-01-01'', id_linguagem = 2,
      linguagens = \<lparr>Language.id_linguagem = 2, Language.nome = ''Go''\<rparr>,
      snippet_tags = [\<lparr>tags = tagUtil\<rparr>]\<rparr>"

section \<open>Remote calls and notifications\<close>

text \<open>
  Every \<^verbatim>\<open>await supabase...\<close> of the program ends in one of three ways: the awaited promise is
  rejected (\<open>Threw\<close>, with the message of what is thrown), it resolves to an object whose
  \<^verbatim>\<open>error\<close> is set (\<open>Failed\<close>, with the message of the error), or it resolves with
  \<^verbatim>\<open>error\<close> null and some \<^verbatim>\<open>data\<close> (\<open>Data\<close>). The program is modelled over these results:
  every handler takes the result of each call it awaits.
\<close>

datatype 'a Awaited = Threw string | Failed string | Data 'a

definition errorOf :: "'a Awaited \<Rightarrow> string option" where
  "errorOf r = (case r of Threw message \<Rightarrow> Some message | Failed message \<Rightarrow> Some message | Data d \<Rightarrow> None)"

text \<open>The calls of \<^verbatim>\<open>toast\<close>, one constructor for each place of call; an error toast carries
  \<^verbatim>\<open>error.message\<close>.\<close>

datatype Toast =
    ErroAoCarregarSnippets string
  | ErroAoCarregarLinguagens string
  | ErroAoCarregarTags string
  | SnippetExcluido
  | ErroAoExcluir string
  | ErroAoCriarTag string
  | CamposObrigatorios
  | SnippetAtualizado
  | SnippetCriado
  | ErroAoSalvar string

text \<open>The writes the program sends to the remote tables. The fields of a snippet that is
  written are its title, description (null when empty), code and language identifier.\<close>

type_synonym SnippetFields = "string \<times> string option \<times> string \<times> int option"

datatype Request =
    DeleteSnippetTags int
  | DeleteSnippet int
  | InsertTag string
  | UpdateSnippet int SnippetFields
  | InsertSnippet SnippetFields "int option"
  | InsertSnippetTags "(int \<times> int) list"

text \<open>What a handler does besides changing the state of its component, in order: the writes
  it sends and the toasts it shows.\<close>

datatype Effect = Write Request | Notify Toast

fun notifications :: "Effect list \<Rightarrow> Toast list" where
  "notifications [] = []"
| "notifications (Write q # es) = notifications es"
| "notifications (Notify t # es) = t # notifications es"

fun writes :: "Effect list \<Rightarrow> Request list" where
  "writes [] = []"
| "writes (Write q # es) = q # writes es"
| "writes (Notify t # es) = writes es"

section \<open>The dashboard\<close>

text \<open>The state of the \<^verbatim>\<open>Dashboard\<close> component, one field for each \<^verbatim>\<open>useState\<close>.\<close>

record Dashboard =
  snippets :: "Snippet list"
  filteredSnippets :: "Snippet list"
  languages :: "Language list"
  allTags :: "Tag list"
  loading :: bool
  showForm :: bool
  editingSnippet :: "Snippet option"
  searchTerm :: string
  selectedLanguage :: string
  selectedTags :: "Tag list"

text \<open>\<^verbatim>\<open>data || []\<close>.\<close>

definition orEmpty :: "'a list option \<Rightarrow> 'a list" where
  "orEmpty data = (case data of None \<Rightarrow> [] | Some rows \<Rightarrow> rows)"

text \<open>The three loaders: \<^verbatim>\<open>if (error) throw error\<close> and a rejected promise both end in the
  \<^verbatim>\<open>catch\<close>, which shows a toast.\<close>

definition loadSnippets :: "Snippet list option Awaited \<Rightarrow> Dashboard \<Rightarrow> Dashboard \<times> Effect list" where
  "loadSnippets r d =
     (case r of
        Data data \<Rightarrow> (d\<lparr>Dashboard.snippets := orEmpty data\<rparr>, [])
      | Failed message \<Rightarrow> (d, [Notify (ErroAoCarregarSnippets message)])
      | Threw message \<Rightarrow> (d, [Notify (ErroAoCarregarSnippets message)]))"

definition loadLanguages :: "Language list option Awaited \<Rightarrow> Dashboard \<Rightarrow> Dashboard \<times> Effect list" where
  "loadLanguages r d =
     (case r of
        Data data \<Rightarrow> (d\<lparr>Dashboard.languages := orEmpty data\<rparr>, [])
      | Failed message \<Rightarrow> (d, [Notify (ErroAoCarregarLinguagens message)])
      | Threw message \<Rightarrow> (d, [Notify (ErroAoCarregarLinguagens message)]))"

definition loadTags :: "Tag list option Awaited \<Rightarrow> Dashboard \<Rightarrow> Dashboard \<times> Effect list" where
  "loadTags r d =
     (case r of
        Data data \<Rightarrow> (d\<lparr>Dashboard.allTags := orEmpty data\<rparr>, [])
      | Failed message \<Rightarrow> (d, [Notify (ErroAoCarregarTags message)])
      | Threw message \<Rightarrow> (d, [Notify (ErroAoCarregarTags message)]))"

text \<open>
  \<^verbatim>\<open>handleDelete\<close> awaits the deletion of the tag relations, whose \<^verbatim>\<open>error\<close> it does not read,
  then the deletion of the snippet; on success it shows a toast and calls \<^verbatim>\<open>loadSnippets\<close>.
  The arguments are the identifier and the results of the two deletions and of the reload.
\<close>

definition handleDelete ::
  "int \<Rightarrow> unit Awaited \<Rightarrow> unit Awaited \<Rightarrow> Snippet list option Awaited \<Rightarrow> Dashboard
     \<Rightarrow> Dashboard \<times> Effect list" where
  "handleDelete snippetId rTags rSnippet rReload d =
     (case rTags of
        Threw message \<Rightarrow> (d, [Write (DeleteSnippetTags snippetId), Notify (ErroAoExcluir message)])
      | _ \<Rightarrow>
          (case rSnippet of
             Data u \<Rightarrow>
               (let (d', es) = loadSnippets rReload d
                in (d', [Write (DeleteSnippetTags snippetId), Write (DeleteSnippet snippetId),
                         Notify SnippetExcluido] @ es))
           | Failed message \<Rightarrow>
               (d, [Write (DeleteSnippetTags snippetId), Write (DeleteSnippet snippetId),
                    Notify (ErroAoExcluir message)])
           | Threw message \<Rightarrow>
               (d, [Write (DeleteSnippetTags snippetId), Write (DeleteSnippet snippetId),
                    Notify (ErroAoExcluir message)])))"

definition handleFormClose :: "Dashboard \<Rightarrow> Dashboard" where
  "handleFormClose d = d\<lparr>showForm := False, editingSnippet := None\<rparr>"

definition handleFormSave :: "Snippet list option Awaited \<Rightarrow> Dashboard \<Rightarrow> Dashboard \<times> Effect list" where
  "handleFormSave rReload d = loadSnippets rReload d"

section \<open>The snippet form\<close>

text \<open>The state of the \<^verbatim>\<open>SnippetForm\<close> component.\<close>

record SnippetForm =
  loading :: bool
  languages :: "Language list"
  allTags :: "Tag list"
  selectedTags :: "Tag list"
  newTag :: string
  formData :: FormData

definition formLoadLanguages ::
  "Language list option Awaited \<Rightarrow> SnippetForm \<Rightarrow> SnippetForm \<times> Effect list" where
  "formLoadLanguages r f =
     (case r of
        Data data \<Rightarrow> (f\<lparr>SnippetForm.languages := orEmpty data\<rparr>, [])
      | Failed message \<Rightarrow> (f, [Notify (ErroAoCarregarLinguagens message)])
      | Threw message \<Rightarrow> (f, [Notify (ErroAoCarregarLinguagens message)]))"

definition formLoadTags :: "Tag list option Awaited \<Rightarrow> SnippetForm \<Rightarrow> SnippetForm \<times> Effect list" where
  "formLoadTags r f =
     (case r of
        Data data \<Rightarrow> (f\<lparr>SnippetForm.allTags := orEmpty data\<rparr>, [])
      | Failed message \<Rightarrow> (f, [Notify (ErroAoCarregarTags message)])
      | Threw message \<Rightarrow> (f, [Notify (ErroAoCarregarTags message)]))"

text \<open>
  \<^verbatim>\<open>addTag\<close>. A handler of a React component reads the state of the render that created it
  and writes, through the setters, the state the component has now. \<open>addTagIn r seen f\<close> is a
  call of the \<^verbatim>\<open>addTag\<close> created by a render with state \<open>seen\<close>, on the current state \<open>f\<close>,
  where \<open>r\<close> is the result of the insertion, should the call reach it. \<open>addTag r f\<close> is the
  call made when the component has been rendered with its current state.

  The guard and the insertion use \<^verbatim>\<open>newTag.trim()\<close>; the lookup in \<^verbatim>\<open>allTags\<close> compares against
  \<^verbatim>\<open>newTag.toLowerCase()\<close>, which is not trimmed.
\<close>

definition addTagIn :: "Tag Awaited \<Rightarrow> SnippetForm \<Rightarrow> SnippetForm \<Rightarrow> SnippetForm \<times> Effect list" where
  "addTagIn r seen f =
     (if trim (newTag seen) = [] then (f, [])
      else
        (case find (\<lambda>tag. toLowerCase (nome tag) = toLowerCase (newTag seen))
                (SnippetForm.allTags seen) of
           Some existingTag \<Rightarrow>
             ((if find (\<lambda>tag. id_tag tag = id_tag existingTag) (SnippetForm.selectedTags seen) = None
               then f\<lparr>SnippetForm.selectedTags := SnippetForm.selectedTags seen @ [existingTag]\<rparr>
               else f)\<lparr>newTag := []\<rparr>,
              [])
         | None \<Rightarrow>
             (case r of
                Data newTagObj \<Rightarrow>
                  (f\<lparr>SnippetForm.allTags := SnippetForm.allTags seen @ [newTagObj],
                     SnippetForm.selectedTags := SnippetForm.selectedTags seen @ [newTagObj],
                     newTag := []\<rparr>,
                   [Write (InsertTag (trim (newTag seen)))])
              | Failed message \<Rightarrow>
                  (f, [Write (InsertTag (trim (newTag seen))), Notify (ErroAoCriarTag message)])
              | Threw message \<Rightarrow>
                  (f, [Write (InsertTag (trim (newTag seen))), Notify (ErroAoCriarTag message)]))))"

definition addTag :: "Tag Awaited \<Rightarrow> SnippetForm \<Rightarrow> SnippetForm \<times> Effect list" where
  "addTag r f = addTagIn r f f"

text \<open>The tag input: \<^verbatim>\<open>onChange={(e) => setNewTag(e.target.value)}\<close>.\<close>

definition setNewTag :: "string \<Rightarrow> SnippetForm \<Rightarrow> SnippetForm" where
  "setNewTag val f = f\<lparr>newTag := val\<rparr>"

text \<open>How many times a tag identifier occurs in a selection.\<close>

definition occurrences :: "int \<Rightarrow> Tag list \<Rightarrow> nat" where
  "occurrences tagId selected = length (filter (\<lambda>tag. id_tag tag = tagId) selected)"

definition removeTag :: "int \<Rightarrow> SnippetForm \<Rightarrow> SnippetForm" where
  "removeTag tagId f =
     f\<lparr>SnippetForm.selectedTags := filter (\<lambda>tag. id_tag tag \<noteq> tagId) (SnippetForm.selectedTags f)\<rparr>"

text \<open>
  \<^verbatim>\<open>handleSubmit\<close>. The dashboard renders the form with \<^verbatim>\<open>snippet = editingSnippet\<close>,
  \<^verbatim>\<open>onSave = handleFormSave\<close> and \<^verbatim>\<open>onOpenChange = handleFormClose\<close>, so a submission acts on the
  state of both components. \<open>trySave\<close> is the body of the \<^verbatim>\<open>try\<close> up to the success toast: it
  gives what was sent and shown, and the message of what was thrown, if anything was.
\<close>

definition formIncomplete :: "FormData \<Rightarrow> bool" where
  "formIncomplete fd =
     (trim (FormData.titulo fd) = [] \<or> trim (FormData.codigo fd) = [] \<or>
      FormData.id_linguagem fd = None \<or> FormData.id_linguagem fd = Some 0)"

definition snippetFields :: "FormData \<Rightarrow> SnippetFields" where
  "snippetFields fd =
     (FormData.titulo fd,
      (if FormData.descricao fd = [] then None else Some (FormData.descricao fd)),
      FormData.codigo fd,
      FormData.id_linguagem fd)"

definition tagInserts :: "int \<Rightarrow> Tag list \<Rightarrow> (int \<times> int) list" where
  "tagInserts snippetId selected = map (\<lambda>tag. (snippetId, id_tag tag)) selected"

definition saveTags :: "int \<Rightarrow> Tag list \<Rightarrow> unit Awaited \<Rightarrow> Effect list \<times> string option" where
  "saveTags snippetId selected rTags =
     (if length selected > 0
      then ([Write (InsertSnippetTags (tagInserts snippetId selected))], errorOf rTags)
      else ([], None))"

definition trySave ::
  "string \<Rightarrow> Snippet option \<Rightarrow> Snippet Awaited \<Rightarrow> unit Awaited \<Rightarrow> unit Awaited \<Rightarrow> SnippetForm
     \<Rightarrow> Effect list \<times> string option" where
  "trySave userId snippet rSave rDelete rTags f =
     (case snippet of
        Some editing \<Rightarrow>
          (case errorOf rSave of
             Some message \<Rightarrow>
               ([Write (UpdateSnippet (id_snippet editing) (snippetFields (formData f)))],
                Some message)
           | None \<Rightarrow>
               (case rDelete of
                  Threw message \<Rightarrow>
                    ([Write (UpdateSnippet (id_snippet editing) (snippetFields (formData f))),
                      Write (DeleteSnippetTags (id_snippet editing))],
                     Some message)
                | _ \<Rightarrow>
                    (let (es, thrown) =
                           saveTags (id_snippet editing) (SnippetForm.selectedTags f) rTags
                     in ([Write (UpdateSnippet (id_snippet editing) (snippetFields (formData f))),
                          Write (DeleteSnippetTags (id_snippet editing))] @ es @
                         (if thrown = None then [Notify SnippetAtualizado] else []),
                         thrown))))
      | None \<Rightarrow>
          (case rSave of
             Threw message \<Rightarrow>
               ([Write (InsertSnippet (snippetFields (formData f)) (parseInt userId))], Some message)
           | Failed message \<Rightarrow>
               ([Write (InsertSnippet (snippetFields (formData f)) (parseInt userId))], Some message)
           | Data snippetData \<Rightarrow>
               (let (es, thrown) =
                      saveTags (id_snippet snippetData) (SnippetForm.selectedTags f) rTags
                in ([Write (InsertSnippet (snippetFields (formData f)) (parseInt userId))] @ es @
                    (if thrown = None then [Notify SnippetCriado] else []),
                    thrown))))"

definition handleSubmit ::
  "string option \<Rightarrow> Snippet option \<Rightarrow> Snippet Awaited \<Rightarrow> unit Awaited \<Rightarrow> unit Awaited
     \<Rightarrow> Snippet list option Awaited \<Rightarrow> Dashboard \<times> SnippetForm
     \<Rightarrow> (Dashboard \<times> SnippetForm) \<times> Effect list" where
  "handleSubmit user snippet rSave rDelete rTags rReload df =
     (case df of
        (d, f) \<Rightarrow>
          (case user of
             None \<Rightarrow> ((d, f), [])
           | Some userId \<Rightarrow>
               if formIncomplete (formData f) then ((d, f), [Notify CamposObrigatorios])
               else
                 (case trySave userId snippet rSave rDelete rTags f of
                    (es, Some message) \<Rightarrow>
                      ((d, f\<lparr>SnippetForm.loading := False\<rparr>), es @ [Notify (ErroAoSalvar message)])
                  | (es, None) \<Rightarrow>
                      (let (d', es') = handleFormSave rReload d
                       in ((handleFormClose d', f\<lparr>SnippetForm.loading := False\<rparr>), es @ es')))))"

section \<open>Example states\<close>

definition tagPython :: Tag where
  "tagPython = \<lparr>id_tag = 1, nome = ''python''\<rparr>"

definition tagPython2 :: Tag where
  "tagPython2 = \<lparr>id_tag = 2, nome = ''python''\<rparr>"

definition formExample :: SnippetForm where
  "formExample =
     \<lparr>SnippetForm.loading = False, SnippetForm.languages = [],
      SnippetForm.allTags = [tagPython, tagUtil], SnippetForm.selectedTags = [tagUtil],
      newTag = [],
      formData = \<lparr>FormData.titulo = ''Sort'', FormData.descricao = [],
                  FormData.codigo = ''xs.sort()'', FormData.id_linguagem = Some 1\<rparr>\<rparr>"

definition dashboardExample :: Dashboard where
  "dashboardExample =
     \<lparr>Dashboard.snippets = [snippetSort, snippetMap],
      filteredSnippets = [snippetSort, snippetMap],
      Dashboard.languages = [], Dashboard.allTags = [tagPython, tagUtil],
      Dashboard.loading = False, showForm = True, editingSnippet = Some snippetSort,
      searchTerm = [], selectedLanguage = ''all'', Dashboard.selectedTags = []\<rparr>"

section \<open>Facts about the string functions\<close>

lemma startsWith_prefix: "startsWith s q \<longleftrightarrow> prefix q s"
  by (induction s q rule: startsWith.induct) auto

lemma str_includes_sublist: "str_includes s q \<longleftrightarrow> sublist q s"
  by (induction s) (auto simp: startsWith_prefix sublist_Cons_right)

lemma upper_in_table:
  assumes "65 \<le> (of_char c :: nat)" and "(of_char c :: nat) \<le> 90"
  shows "c \<in> set ''ABCDEFGHIJKLMNOPQRSTUVWXYZ''"
proof -
  have "(of_char c :: nat) \<in> of_char ` set ''ABCDEFGHIJKLMNOPQRSTUVWXYZ''"
    using assms by simp arith
  then obtain x where "x \<in> set ''ABCDEFGHIJKLMNOPQRSTUVWXYZ''"
    and "(of_char c :: nat) = of_char x"
    by blast
  then show ?thesis by (simp only: of_char_eq_iff)
qed

lemma table_is_upper:
  assumes "c \<in> set ''ABCDEFGHIJKLMNOPQRSTUVWXYZ''"
  shows "65 \<le> (of_char c :: nat) \<and> (of_char c :: nat) \<le> 90 \<and>
         (of_char (lower_char c) :: nat) = of_char c + 32"
  using assms by (auto simp: lower_char_def)

lemma not_in_table: "c \<notin> set ''ABCDEFGHIJKLMNOPQRSTUVWXYZ'' \<Longrightarrow> lower_char c = c"
  by (simp add: lower_char_def)

lemma of_char_lower_char:
  "(of_char (lower_char c) :: nat) =
     (if 65 \<le> (of_char c :: nat) \<and> (of_char c :: nat) \<le> 90 then of_char c + 32 else of_char c)"
proof (cases "c \<in> set ''ABCDEFGHIJKLMNOPQRSTUVWXYZ''")
  case True
  from table_is_upper [OF this] show ?thesis by simp
next
  case False
  then have "\<not> (65 \<le> (of_char c :: nat) \<and> (of_char c :: nat) \<le> 90)"
    using upper_in_table by blast
  with not_in_table [OF False] show ?thesis by simp
qed

lemma lower_char_eq_iff: "lower_char a = lower_char b \<longleftrightarrow> sameLetter a b"
proof -
  have "lower_char a = lower_char b \<longleftrightarrow>
          (of_char (lower_char a) :: nat) = of_char (lower_char b)"
    by (simp only: of_char_eq_iff)
  also have "\<dots> \<longleftrightarrow> ((of_char a :: nat) = of_char b \<or> isUpperCaseOf a b \<or> isUpperCaseOf b a)"
    unfolding of_char_lower_char isUpperCaseOf_def by auto
  also have "\<dots> \<longleftrightarrow> sameLetter a b"
    unfolding sameLetter_def by (simp only: of_char_eq_iff)
  finally show ?thesis .
qed

lemma sameLetter_map: "list_all2 sameLetter xs ys \<longleftrightarrow> toLowerCase xs = toLowerCase ys"
  unfolding toLowerCase_def
proof (induction xs arbitrary: ys)
  case Nil
  then show ?case by auto
next
  case (Cons x xs)
  then show ?case by (cases ys) (auto simp: lower_char_eq_iff)
qed

lemma map_eq_appendD:
  assumes "map f xs = ys @ zs"
  shows "\<exists>us vs. xs = us @ vs \<and> map f us = ys \<and> map f vs = zs"
proof (intro exI conjI)
  show "xs = take (length ys) xs @ drop (length ys) xs"
    by simp
  have "map f (take (length ys) xs) = take (length ys) (map f xs)"
    by (simp only: take_map)
  then show "map f (take (length ys) xs) = ys"
    by (simp add: assms)
  have "map f (drop (length ys) xs) = drop (length ys) (map f xs)"
    by (simp only: drop_map)
  then show "map f (drop (length ys) xs) = zs"
    by (simp add: assms)
qed

lemma includes_lower_iff:
  "str_includes (toLowerCase field) (toLowerCase query) \<longleftrightarrow> containsIgnoringCase field query"
proof
  assume "str_includes (toLowerCase field) (toLowerCase query)"
  then obtain ps ss where "map lower_char field = ps @ (map lower_char query @ ss)"
    unfolding str_includes_sublist sublist_def toLowerCase_def by blast
  from map_eq_appendD [OF this]
  obtain before rest where f: "field = before @ rest"
    and "map lower_char rest = map lower_char query @ ss"
    by blast
  from map_eq_appendD [OF this(2)]
  obtain seg after where r: "rest = seg @ after"
    and "map lower_char seg = map lower_char query"
    by blast
  then have "list_all2 sameLetter seg query"
    by (simp add: sameLetter_map toLowerCase_def)
  with f r show "containsIgnoringCase field query"
    unfolding containsIgnoringCase_def by blast
next
  assume "containsIgnoringCase field query"
  then obtain before seg after where "field = before @ seg @ after"
    and "list_all2 sameLetter seg query"
    unfolding containsIgnoringCase_def by blast
  then have "toLowerCase field = toLowerCase before @ toLowerCase query @ toLowerCase after"
    by (simp add: sameLetter_map toLowerCase_def)
  then show "str_includes (toLowerCase field) (toLowerCase query)"
    unfolding str_includes_sublist sublist_def by blast
qed

lemma digitValue_digitChar: "d < 10 \<Longrightarrow> digitValue 10 (digitChar d) = Some d"
  by (simp add: digitValue_def digitChar_def)

lemma digit_not_special:
  assumes "digitValue 10 c \<noteq> None"
  shows "\<not> isWhiteSpace c" and "c \<noteq> CHR ''+''" and "c \<noteq> CHR ''-''"
    and "c \<noteq> CHR ''x''" and "c \<noteq> CHR ''X''"
  using assms by (auto simp: digitValue_def isWhiteSpace_def)

lemma natToDigits_all_digits: "\<forall>c \<in> set (natToDigits n). digitValue 10 c \<noteq> None"
proof (induction n rule: natToDigits.induct)
  case (1 n)
  show ?case
  proof (cases "n < 10")
    case True
    then show ?thesis
      by (simp add: natToDigits.simps [of n] digitValue_digitChar)
  next
    case False
    have "n mod 10 < 10" by simp
    then have "digitValue 10 (digitChar (n mod 10)) \<noteq> None"
      by (simp only: digitValue_digitChar) simp
    with False 1 show ?thesis
      by (simp add: natToDigits.simps [of n])
  qed
qed

lemma natToDigits_not_Nil: "natToDigits n \<noteq> []"
  by (simp add: natToDigits.simps [of n])

lemma digitsPrefix_snoc:
  "\<forall>c \<in> set xs. digitValue r c \<noteq> None \<Longrightarrow> digitValue r c = Some d \<Longrightarrow>
   digitsPrefix r (xs @ [c]) = digitsPrefix r xs @ [d]"
  by (induction xs) auto

lemma mathInt_snoc: "mathInt r (ds @ [d]) = mathInt r ds * r + d"
  by (simp add: mathInt_def)

lemma mathInt_natToDigits: "mathInt 10 (digitsPrefix 10 (natToDigits n)) = n"
proof (induction n rule: natToDigits.induct)
  case (1 n)
  show ?case
  proof (cases "n < 10")
    case True
    then show ?thesis
      by (simp add: natToDigits.simps [of n] digitValue_digitChar mathInt_def)
  next
    case False
    have d: "digitValue 10 (digitChar (n mod 10)) = Some (n mod 10)"
      by (rule digitValue_digitChar) simp
    have "digitsPrefix 10 (natToDigits n)
            = digitsPrefix 10 (natToDigits (n div 10)) @ [n mod 10]"
      using False digitsPrefix_snoc [OF natToDigits_all_digits d]
      by (simp add: natToDigits.simps [of n])
    with False 1 show ?thesis
      by (simp add: mathInt_snoc)
  qed
qed

lemma digitsPrefix_natToDigits_not_Nil: "digitsPrefix 10 (natToDigits n) \<noteq> []"
proof -
  obtain c cs where s: "natToDigits n = c # cs"
    using natToDigits_not_Nil [of n] by (cases "natToDigits n") auto
  then have "c \<in> set (natToDigits n)" by simp
  then have "digitValue 10 c \<noteq> None" using natToDigits_all_digits by blast
  with s show ?thesis by auto
qed

lemma natToDigits_no_hex: "\<not> hasHexPrefix (natToDigits n)"
proof
  assume h: "hasHexPrefix (natToDigits n)"
  then obtain c c' cs where s: "natToDigits n = c # c' # cs"
    unfolding hasHexPrefix_def by (cases "natToDigits n" rule: remdups_adj.cases) auto
  then have "c' \<in> set (natToDigits n)" by simp
  then have "digitValue 10 c' \<noteq> None" using natToDigits_all_digits by blast
  from digit_not_special(4,5) [OF this] h s show False
    by (simp add: hasHexPrefix_def)
qed

lemma parseInt_natToDigits: "parseInt (natToDigits n) = Some (int n)"
proof -
  obtain c cs where s: "natToDigits n = c # cs"
    using natToDigits_not_Nil [of n] by (cases "natToDigits n") auto
  then have "c \<in> set (natToDigits n)" by simp
  then have c: "digitValue 10 c \<noteq> None" using natToDigits_all_digits by blast
  have "parseInt (c # cs) = Some (int (mathInt 10 (digitsPrefix 10 (c # cs))))"
    using digit_not_special(1,2,3) [OF c] natToDigits_no_hex [of n]
      digitsPrefix_natToDigits_not_Nil [of n]
    unfolding s by (simp add: parseInt_def Let_def)
  then show ?thesis
    using mathInt_natToDigits [of n] s by simp
qed

lemma parseInt_minus_natToDigits: "parseInt (CHR ''-'' # natToDigits n) = Some (- int n)"
  using natToDigits_no_hex [of n] digitsPrefix_natToDigits_not_Nil [of n]
  by (simp add: parseInt_def Let_def isWhiteSpace_def mathInt_natToDigits)

lemma parseInt_toString: "parseInt (toString i) = Some i"
  by (simp add: toString_def parseInt_natToDigits parseInt_minus_natToDigits)

lemma toString_not_all: "toString i \<noteq> ''all''"
proof
  assume "toString i = ''all''"
  then have "parseInt ''all'' = Some i" using parseInt_toString [of i] by simp
  then show False by (simp add: parseInt_def Let_def isWhiteSpace_def digitValue_def)
qed

lemma toString_not_Nil: "toString i \<noteq> []"
  by (simp add: toString_def natToDigits_not_Nil)

section \<open>Facts about the three steps\<close>

lemma textMatch_spec: "textMatch query snippet \<longleftrightarrow> specTextMatch query snippet"
  by (cases "descricao snippet") (simp_all add: textMatch_def specTextMatch_def includes_lower_iff)

lemma languageStep_all: "languageStep ''all'' xs = xs"
  by (simp add: languageStep_def)

lemma languageStep_empty: "languageStep [] xs = xs"
  by (simp add: languageStep_def)

lemma tagStep_Nil: "tagStep [] xs = xs"
  by (simp add: tagStep_def)

lemma textStep_Nil: "textStep [] xs = xs"
  by (simp add: textStep_def)

lemma tagMatch_superset: "tagMatch required snippet \<longleftrightarrow> requiredTagIds required \<subseteq> snippetTagIds snippet"
  unfolding tagMatch_def requiredTagIds_def snippetTagIds_def list_all_iff list_ex_iff
  by (simp add: subset_iff image_iff) metis

lemma languageMatch_toString: "languageMatch (toString n) snippet \<longleftrightarrow> id_linguagem snippet = n"
  by (simp add: languageMatch_def parseInt_toString)

text \<open>Each step is a filter by some predicate, whether its guard is on or off.\<close>

lemma textStep_filter: "textStep q xs = filter (\<lambda>x. q = [] \<or> textMatch q x) xs"
  by (simp add: textStep_def)

lemma languageStep_filter:
  "languageStep l xs = filter (\<lambda>x. l = [] \<or> l = ''all'' \<or> languageMatch l x) xs"
  by (simp add: languageStep_def)

lemma tagStep_filter: "tagStep t xs = filter (\<lambda>x. t = [] \<or> tagMatch t x) xs"
  by (simp add: tagStep_def)

lemma applyFilters_filter:
  "applyFilters xs q l t =
     filter (\<lambda>x. (q = [] \<or> textMatch q x) \<and> (l = [] \<or> l = ''all'' \<or> languageMatch l x) \<and>
                 (t = [] \<or> tagMatch t x)) xs"
  unfolding applyFilters_def textStep_filter languageStep_filter tagStep_filter
  by (simp add: conj_commute conj_left_commute)

lemma applyFilters_text_only: "applyFilters xs q ''all'' [] = textStep q xs"
  by (simp add: applyFilters_def languageStep_all tagStep_Nil)

lemma applyFilters_language_only: "applyFilters xs [] l [] = languageStep l xs"
  by (simp add: applyFilters_def textStep_Nil tagStep_Nil)

lemma applyFilters_tags_only: "applyFilters xs [] ''all'' t = tagStep t xs"
  by (simp add: applyFilters_def textStep_Nil languageStep_all)

section \<open>Facts about the handlers\<close>

lemma occurrences_distinct:
  "distinct (map id_tag xs) \<Longrightarrow> occurrences i xs = (if i \<in> id_tag ` set xs then 1 else 0)"
  unfolding occurrences_def by (induction xs) auto

lemma occurrences_snoc: "occurrences i (xs @ [t]) = occurrences i xs + (if id_tag t = i then 1 else 0)"
  by (simp add: occurrences_def)

lemma find_id_None: "find (\<lambda>tag. id_tag tag = i) xs = None \<longleftrightarrow> i \<notin> id_tag ` set xs"
  by (auto simp: find_None_iff)

lemma setNewTag_fields:
  "newTag (setNewTag v g) = v"
  "SnippetForm.allTags (setNewTag v g) = SnippetForm.allTags g"
  "SnippetForm.selectedTags (setNewTag v g) = SnippetForm.selectedTags g"
  by (simp_all add: setNewTag_def)

lemma addTagIn_hit:
  assumes "trim (newTag seen) \<noteq> []"
    and "find (\<lambda>tag. toLowerCase (nome tag) = toLowerCase (newTag seen)) (SnippetForm.allTags seen)
           = Some existingTag"
  shows "addTagIn r seen f =
           ((if id_tag existingTag \<notin> id_tag ` set (SnippetForm.selectedTags seen)
             then f\<lparr>SnippetForm.selectedTags := SnippetForm.selectedTags seen @ [existingTag]\<rparr>
             else f)\<lparr>newTag := []\<rparr>, [])"
  using assms by (simp add: addTagIn_def find_id_None)

lemma addTag_hit:
  assumes "trim (newTag f) \<noteq> []"
    and "find (\<lambda>tag. toLowerCase (nome tag) = toLowerCase (newTag f)) (SnippetForm.allTags f)
           = Some existingTag"
  shows "addTag r f =
           ((if id_tag existingTag \<notin> id_tag ` set (SnippetForm.selectedTags f)
             then f\<lparr>SnippetForm.selectedTags := SnippetForm.selectedTags f @ [existingTag]\<rparr>
             else f)\<lparr>newTag := []\<rparr>, [])"
  unfolding addTag_def using assms by (rule addTagIn_hit)

lemma notifications_append: "notifications (xs @ ys) = notifications xs @ notifications ys"
  by (induction xs rule: notifications.induct) simp_all

lemma errorOf_cases:
  "errorOf r = Some m \<longleftrightarrow> r = Threw m \<or> r = Failed m"
  by (cases r) (auto simp: errorOf_def)

lemma loadSnippets_failed: "errorOf r = Some m \<Longrightarrow> loadSnippets r d = (d, [Notify (ErroAoCarregarSnippets m)])"
  by (auto simp: errorOf_cases loadSnippets_def)

lemma loadSnippets_notifications:
  "ErroAoExcluir m \<notin> set (notifications (snd (loadSnippets r d)))"
  "ErroAoSalvar m \<notin> set (notifications (snd (loadSnippets r d)))"
  by (cases r; simp add: loadSnippets_def)+

lemma handleDelete_error:
  assumes "ErroAoExcluir m \<in> set (notifications (snd (handleDelete sid rt rs rr d)))"
  shows "fst (handleDelete sid rt rs rr d) = d \<and>
         notifications (snd (handleDelete sid rt rs rr d)) = [ErroAoExcluir m]"
proof (cases "\<exists>x. rt = Threw x")
  case True
  with assms show ?thesis by (auto simp: handleDelete_def)
next
  case False
  then have rt: "(case rt of Threw message \<Rightarrow> a message | _ \<Rightarrow> b) = b"
    for a :: "string \<Rightarrow> Dashboard \<times> Effect list" and b
    by (cases rt) auto
  show ?thesis
  proof (cases rs)
    case (Data u)
    with assms loadSnippets_notifications(1) [of m rr d] show ?thesis
      by (simp add: handleDelete_def rt split: prod.splits)
  next
    case (Failed x)
    with assms show ?thesis by (simp add: handleDelete_def rt)
  next
    case (Threw x)
    with assms show ?thesis by (simp add: handleDelete_def rt)
  qed
qed

lemma handleDelete_snippet_failed:
  assumes "errorOf rs = Some m"
  shows "fst (handleDelete sid rt rs rr d) = d \<and>
         (\<exists>m'. notifications (snd (handleDelete sid rt rs rr d)) = [ErroAoExcluir m'])"
  using assms by (cases rt; auto simp: errorOf_cases handleDelete_def)

lemma addTag_failed:
  assumes "trim (newTag f) \<noteq> []"
    and "find (\<lambda>tag. toLowerCase (nome tag) = toLowerCase (newTag f)) (SnippetForm.allTags f) = None"
    and "errorOf r = Some m"
  shows "addTag r f = (f, [Write (InsertTag (trim (newTag f))), Notify (ErroAoCriarTag m)])"
  using assms by (auto simp: errorOf_cases addTag_def addTagIn_def)

lemma trySave_thrown_notifications:
  "snd (trySave u s r1 r2 r3 f) = Some m \<Longrightarrow> notifications (fst (trySave u s r1 r2 r3 f)) = []"
  by (auto simp: trySave_def notifications_append saveTags_def
      split: option.splits Awaited.splits prod.splits if_splits)

lemma trySave_ok_notifications:
  "snd (trySave u s r1 r2 r3 f) = None \<Longrightarrow>
   ErroAoSalvar m \<notin> set (notifications (fst (trySave u s r1 r2 r3 f)))"
  by (auto simp: trySave_def notifications_append saveTags_def
      split: option.splits Awaited.splits prod.splits if_splits)

lemma trySave_save_failed:
  "errorOf r1 = Some m \<Longrightarrow> snd (trySave u s r1 r2 r3 f) = Some m"
  by (cases r1) (auto simp: errorOf_def trySave_def split: option.splits)

lemma handleSubmit_thrown:
  assumes "\<not> formIncomplete (formData f)" and "snd (trySave u s r1 r2 r3 f) = Some m"
  shows "fst (handleSubmit (Some u) s r1 r2 r3 rr (d, f)) = (d, f\<lparr>SnippetForm.loading := False\<rparr>) \<and>
         notifications (snd (handleSubmit (Some u) s r1 r2 r3 rr (d, f))) = [ErroAoSalvar m]"
proof -
  obtain es where t: "trySave u s r1 r2 r3 f = (es, Some m)"
    using assms(2) by (cases "trySave u s r1 r2 r3 f") auto
  then have "notifications es = []"
    using trySave_thrown_notifications [OF assms(2)] by simp
  with assms(1) t show ?thesis
    by (simp add: handleSubmit_def notifications_append)
qed

lemma handleSubmit_error:
  assumes "ErroAoSalvar m \<in> set (notifications (snd (handleSubmit user s r1 r2 r3 rr (d, f))))"
  shows "fst (handleSubmit user s r1 r2 r3 rr (d, f)) = (d, f\<lparr>SnippetForm.loading := False\<rparr>) \<and>
         notifications (snd (handleSubmit user s r1 r2 r3 rr (d, f))) = [ErroAoSalvar m]"
proof (cases user)
  case None
  with assms show ?thesis by (simp add: handleSubmit_def)
next
  case (Some u)
  show ?thesis
  proof (cases "formIncomplete (formData f)")
    case True
    with assms Some show ?thesis by (simp add: handleSubmit_def)
  next
    case False
    obtain es thrown where t: "trySave u s r1 r2 r3 f = (es, thrown)"
      by (cases "trySave u s r1 r2 r3 f") auto
    show ?thesis
    proof (cases thrown)
      case None
      with t have "snd (trySave u s r1 r2 r3 f) = None" by simp
      from trySave_ok_notifications [OF this, of m] t
      have "ErroAoSalvar m \<notin> set (notifications es)" by simp
      with assms Some False t None loadSnippets_notifications(2) [of m rr d]
      show ?thesis
        by (simp add: handleSubmit_def handleFormSave_def notifications_append split: prod.splits)
    next
      case (Some m')
      with t have s': "snd (trySave u s r1 r2 r3 f) = Some m'" by simp
      from handleSubmit_thrown [OF False s', of rr d] assms \<open>user = Some u\<close>
      show ?thesis by simp
    qed
  qed
qed

text \<open>
  What holds of failing remote calls. When a call whose error the handler reads fails, by a
  rejected promise or by a result whose error is set, the handler shows its error toast and
  leaves the state as it was: the three loaders of the dashboard and the two of the form
  return their state unchanged; a failed deletion of the snippet leaves the dashboard
  unchanged; a failed tag insertion leaves the form unchanged; and a submission that fails
  leaves the dashboard unchanged and changes nothing in the form but its \<^verbatim>\<open>loading\<close> flag,
  which the \<^verbatim>\<open>finally\<close> resets. Whenever the error toast of the deletion or of the submission
  is shown, it is the only toast and the state is as said.
\<close>

lemma caught_failure_leaves_state:
  "(errorOf rSnippets = Some m \<longrightarrow>
      loadSnippets rSnippets d = (d, [Notify (ErroAoCarregarSnippets m)])) \<and>
   (errorOf rLanguages = Some m \<longrightarrow>
      loadLanguages rLanguages d = (d, [Notify (ErroAoCarregarLinguagens m)]) \<and>
      formLoadLanguages rLanguages f = (f, [Notify (ErroAoCarregarLinguagens m)])) \<and>
   (errorOf rTagList = Some m \<longrightarrow>
      loadTags rTagList d = (d, [Notify (ErroAoCarregarTags m)]) \<and>
      formLoadTags rTagList f = (f, [Notify (ErroAoCarregarTags m)])) \<and>
   handleDelete sid (Threw m) rDelSnippet rReload d =
     (d, [Write (DeleteSnippetTags sid), Notify (ErroAoExcluir m)]) \<and>
   (errorOf rDelSnippet = Some m \<longrightarrow>
      fst (handleDelete sid rDelTags rDelSnippet rReload d) = d \<and>
      (\<exists>m'. notifications (snd (handleDelete sid rDelTags rDelSnippet rReload d)) = [ErroAoExcluir m'])) \<and>
   (ErroAoExcluir m \<in> set (notifications (snd (handleDelete sid rDelTags rDelSnippet rReload d))) \<longrightarrow>
      fst (handleDelete sid rDelTags rDelSnippet rReload d) = d \<and>
      notifications (snd (handleDelete sid rDelTags rDelSnippet rReload d)) = [ErroAoExcluir m]) \<and>
   (isAscii (newTag f) \<and> list_all (\<lambda>tag. isAscii (nome tag)) (SnippetForm.allTags f) \<and>
    trim (newTag f) \<noteq> [] \<and>
    find (\<lambda>tag. toLowerCase (nome tag) = toLowerCase (newTag f)) (SnippetForm.allTags f) = None \<and>
    errorOf rTag = Some m \<longrightarrow>
      addTag rTag f = (f, [Write (InsertTag (trim (newTag f))), Notify (ErroAoCriarTag m)])) \<and>
   (\<not> formIncomplete (formData f) \<and> errorOf rSave = Some m \<longrightarrow>
      fst (handleSubmit (Some userId) snippet rSave rDelete rTags rReload (d, f)) =
        (d, f\<lparr>SnippetForm.loading := False\<rparr>) \<and>
      notifications (snd (handleSubmit (Some userId) snippet rSave rDelete rTags rReload (d, f))) =
        [ErroAoSalvar m]) \<and>
   (ErroAoSalvar m \<in>
      set (notifications (snd (handleSubmit user snippet rSave rDelete rTags rReload (d, f)))) \<longrightarrow>
      fst (handleSubmit user snippet rSave rDelete rTags rReload (d, f)) =
        (d, f\<lparr>SnippetForm.loading := False\<rparr>) \<and>
      notifications (snd (handleSubmit user snippet rSave rDelete rTags rReload (d, f))) =
        [ErroAoSalvar m])"
proof (intro conjI impI)
  show "loadSnippets rSnippets d = (d, [Notify (ErroAoCarregarSnippets m)])"
    if "errorOf rSnippets = Some m"
    using that by (rule loadSnippets_failed)
  show "loadLanguages rLanguages d = (d, [Notify (ErroAoCarregarLinguagens m)])"
    if "errorOf rLanguages = Some m"
    using that by (auto simp: errorOf_cases loadLanguages_def)
  show "formLoadLanguages rLanguages f = (f, [Notify (ErroAoCarregarLinguagens m)])"
    if "errorOf rLanguages = Some m"
    using that by (auto simp: errorOf_cases formLoadLanguages_def)
  show "loadTags rTagList d = (d, [Notify (ErroAoCarregarTags m)])"
    if "errorOf rTagList = Some m"
    using that by (auto simp: errorOf_cases loadTags_def)
  show "formLoadTags rTagList f = (f, [Notify (ErroAoCarregarTags m)])"
    if "errorOf rTagList = Some m"
    using that by (auto simp: errorOf_cases formLoadTags_def)
  show "handleDelete sid (Threw m) rDelSnippet rReload d =
          (d, [Write (DeleteSnippetTags sid), Notify (ErroAoExcluir m)])"
    by (simp add: handleDelete_def)
  show "fst (handleDelete sid rDelTags rDelSnippet rReload d) = d"
    if "errorOf rDelSnippet = Some m"
    using handleDelete_snippet_failed [OF that] by blast
  show "\<exists>m'. notifications (snd (handleDelete sid rDelTags rDelSnippet rReload d)) = [ErroAoExcluir m']"
    if "errorOf rDelSnippet = Some m"
    using handleDelete_snippet_failed [OF that] by blast
  show "fst (handleDelete sid rDelTags rDelSnippet rReload d) = d"
    if "ErroAoExcluir m \<in> set (notifications (snd (handleDelete sid rDelTags rDelSnippet rReload d)))"
    using handleDelete_error [OF that] by blast
  show "notifications (snd (handleDelete sid rDelTags rDelSnippet rReload d)) = [ErroAoExcluir m]"
    if "ErroAoExcluir m \<in> set (notifications (snd (handleDelete sid rDelTags rDelSnippet rReload d)))"
    using handleDelete_error [OF that] by blast
  show "addTag rTag f = (f, [Write (InsertTag (trim (newTag f))), Notify (ErroAoCriarTag m)])"
    if "isAscii (newTag f) \<and> list_all (\<lambda>tag. isAscii (nome tag)) (SnippetForm.allTags f) \<and>
        trim (newTag f) \<noteq> [] \<and>
        find (\<lambda>tag. toLowerCase (nome tag) = toLowerCase (newTag f)) (SnippetForm.allTags f) = None \<and>
        errorOf rTag = Some m"
    using that addTag_failed by blast
  show "fst (handleSubmit (Some userId) snippet rSave rDelete rTags rReload (d, f)) =
          (d, f\<lparr>SnippetForm.loading := False\<rparr>)"
    if "\<not> formIncomplete (formData f) \<and> errorOf rSave = Some m"
    using that handleSubmit_thrown trySave_save_failed by blast
  show "notifications (snd (handleSubmit (Some userId) snippet rSave rDelete rTags rReload (d, f))) =
          [ErroAoSalvar m]"
    if "\<not> formIncomplete (formData f) \<and> errorOf rSave = Some m"
    using that handleSubmit_thrown trySave_save_failed by blast
  show "fst (handleSubmit user snippet rSave rDelete rTags rReload (d, f)) =
          (d, f\<lparr>SnippetForm.loading := False\<rparr>)"
    if "ErroAoSalvar m \<in>
          set (notifications (snd (handleSubmit user snippet rSave rDelete rTags rReload (d, f))))"
    using handleSubmit_error [OF that] by blast
  show "notifications (snd (handleSubmit user snippet rSave rDelete rTags rReload (d, f))) =
          [ErroAoSalvar m]"
    if "ErroAoSalvar m \<in>
          set (notifications (snd (handleSubmit user snippet rSave rDelete rTags rReload (d, f))))"
    using handleSubmit_error [OF that] by blast
qed

lemma caught_failure_example:
  "loadSnippets (Failed ''timeout'') dashboardExample =
     (dashboardExample, [Notify (ErroAoCarregarSnippets ''timeout'')]) \<and>
   loadLanguages (Threw ''timeout'') dashboardExample =
     (dashboardExample, [Notify (ErroAoCarregarLinguagens ''timeout'')]) \<and>
   loadTags (Failed ''timeout'') dashboardExample =
     (dashboardExample, [Notify (ErroAoCarregarTags ''timeout'')]) \<and>
   fst (handleDelete 1 (Data ()) (Failed ''timeout'') (Data None) dashboardExample) =
     dashboardExample \<and>
   addTag (Failed ''timeout'') (setNewTag ''go'' formExample) =
     (setNewTag ''go'' formExample, [Write (InsertTag ''go''), Notify (ErroAoCriarTag ''timeout'')]) \<and>
   fst (handleSubmit (Some ''7'') (Some snippetSort) (Failed ''timeout'') (Data ()) (Data ())
          (Data None) (dashboardExample, setNewTag ''go'' formExample)) =
     (dashboardExample, (setNewTag ''go'' formExample)\<lparr>SnippetForm.loading := False\<rparr>) \<and>
   notifications
     (snd (handleSubmit (Some ''7'') (Some snippetSort) (Failed ''timeout'') (Data ()) (Data ())
             (Data None) (dashboardExample, setNewTag ''go'' formExample))) =
     [ErroAoSalvar ''timeout'']"
proof -
  note t = caught_failure_leaves_state
    [where rSnippets = "Failed ''timeout''" and rLanguages = "Threw ''timeout''"
       and rTagList = "Failed ''timeout''" and m = "''timeout''" and d = dashboardExample
       and f = "setNewTag ''go'' formExample" and sid = 1 and rDelTags = "Data ()"
       and rDelSnippet = "Failed ''timeout''" and rReload = "Data None"
       and rTag = "Failed ''timeout''" and rSave = "Failed ''timeout''" and userId = "''7''"
       and user = "Some ''7''" and snippet = "Some snippetSort" and rDelete = "Data ()"
       and rTags = "Data ()"]
  have e1: "errorOf (Failed ''timeout'' :: Snippet list option Awaited) = Some ''timeout''"
    and e2: "errorOf (Threw ''timeout'' :: Language list option Awaited) = Some ''timeout''"
    and e3: "errorOf (Failed ''timeout'' :: Tag list option Awaited) = Some ''timeout''"
    and e4: "errorOf (Failed ''timeout'' :: unit Awaited) = Some ''timeout''"
    and e5: "errorOf (Failed ''timeout'' :: Tag Awaited) = Some ''timeout''"
    and e6: "errorOf (Failed ''timeout'' :: Snippet Awaited) = Some ''timeout''"
    by (simp_all add: errorOf_def)
  have n: "trim (newTag (setNewTag ''go'' formExample)) \<noteq> []"
    by (simp add: setNewTag_def trim_def isWhiteSpace_def)
  have l: "find (\<lambda>tag. toLowerCase (nome tag) = toLowerCase (newTag (setNewTag ''go'' formExample)))
             (SnippetForm.allTags (setNewTag ''go'' formExample)) = None"
    by (simp add: setNewTag_def formExample_def tagPython_def tagUtil_def toLowerCase_def
        lower_char_def)
  have c: "\<not> formIncomplete (formData (setNewTag ''go'' formExample))"
    by (simp add: formIncomplete_def setNewTag_def formExample_def trim_def isWhiteSpace_def)
  from t e1 have 1: "loadSnippets (Failed ''timeout'') dashboardExample =
     (dashboardExample, [Notify (ErroAoCarregarSnippets ''timeout'')])"
    by blast
  from t e2 have 2: "loadLanguages (Threw ''timeout'') dashboardExample =
     (dashboardExample, [Notify (ErroAoCarregarLinguagens ''timeout'')])"
    by blast
  from t e3 have 3: "loadTags (Failed ''timeout'') dashboardExample =
     (dashboardExample, [Notify (ErroAoCarregarTags ''timeout'')])"
    by blast
  from t e4 have 4: "fst (handleDelete 1 (Data ()) (Failed ''timeout'') (Data None) dashboardExample) =
     dashboardExample"
    by blast
  have x: "isAscii (newTag (setNewTag ''go'' formExample))"
    and y: "list_all (\<lambda>tag. isAscii (nome tag)) (SnippetForm.allTags (setNewTag ''go'' formExample))"
    by (simp_all add: isAscii_def setNewTag_def formExample_def tagPython_def tagUtil_def)
  from t x y n l e5 have 5: "addTag (Failed ''timeout'') (setNewTag ''go'' formExample) =
     (setNewTag ''go'' formExample, [Write (InsertTag ''go''), Notify (ErroAoCriarTag ''timeout'')])"
    by (simp add: setNewTag_def trim_def isWhiteSpace_def)
  from t c e6 have 6: "fst (handleSubmit (Some ''7'') (Some snippetSort) (Failed ''timeout'') (Data ())
          (Data ()) (Data None) (dashboardExample, setNewTag ''go'' formExample)) =
     (dashboardExample, (setNewTag ''go'' formExample)\<lparr>SnippetForm.loading := False\<rparr>)"
    by blast
  from t c e6 have 7: "notifications
     (snd (handleSubmit (Some ''7'') (Some snippetSort) (Failed ''timeout'') (Data ()) (Data ())
             (Data None) (dashboardExample, setNewTag ''go'' formExample))) =
     [ErroAoSalvar ''timeout'']"
    by blast
  from 1 2 3 4 5 6 7 show ?thesis by blast
qed

section \<open>The claims about the snippet filter\<close>

text \<open>
  C1. For a non-empty query, on texts of ASCII characters, the text step keeps exactly the
  snippets whose title, or description when there is one, or code contains the query as a
  case-insensitive substring; so does the whole filter when language and tags are not
  restricted. A snippet with no description whose title or code contains the query is kept.
\<close>

theorem text_filter_keeps_exactly_matches:
  assumes "query \<noteq> []"
    and "isAscii query"
    and "list_all asciiSnippet input"
  shows "textStep query input = filter (specTextMatch query) input \<and>
         applyFilters input query ''all'' [] = filter (specTextMatch query) input \<and>
         (\<forall>snippet \<in> set input.
            descricao snippet = None \<longrightarrow>
            containsIgnoringCase (titulo snippet) query \<or>
              containsIgnoringCase (codigo snippet) query \<longrightarrow>
            snippet \<in> set (textStep query input))"
proof -
  have m: "textMatch query = specTextMatch query"
    by (rule ext) (rule textMatch_spec)
  have 1: "textStep query input = filter (specTextMatch query) input"
    using assms(1) by (simp add: textStep_def m)
  have 2: "applyFilters input query ''all'' [] = filter (specTextMatch query) input"
    by (simp add: applyFilters_text_only 1)
  have 3: "\<forall>snippet \<in> set input.
        descricao snippet = None \<longrightarrow>
        containsIgnoringCase (titulo snippet) query \<or>
          containsIgnoringCase (codigo snippet) query \<longrightarrow>
        snippet \<in> set (textStep query input)"
    by (auto simp: 1 specTextMatch_def)
  from 1 2 3 show ?thesis by blast
qed

theorem text_filter_witness:
  "''XS.Sort'' \<noteq> [] \<and> isAscii ''XS.Sort'' \<and> list_all asciiSnippet [snippetSort, snippetMap] \<and>
   textStep ''XS.Sort'' [snippetSort, snippetMap] =
     filter (specTextMatch ''XS.Sort'') [snippetSort, snippetMap] \<and>
   textStep ''XS.Sort'' [snippetSort, snippetMap] = [snippetSort] \<and>
   descricao snippetSort = None \<and>
   containsIgnoringCase (codigo snippetSort) ''XS.Sort'' \<and>
   snippetSort \<in> set (textStep ''XS.Sort'' [snippetSort, snippetMap])"
proof -
  have h: "''XS.Sort'' \<noteq> []" by simp
  have q: "isAscii ''XS.Sort''"
    by (simp add: isAscii_def)
  have i: "list_all asciiSnippet [snippetSort, snippetMap]"
    by (simp add: asciiSnippet_def isAscii_def snippetSort_def snippetMap_def)
  have e: "textStep ''XS.Sort'' [snippetSort, snippetMap] = [snippetSort]"
    by (simp add: textStep_def textMatch_def snippetSort_def snippetMap_def toLowerCase_def
        lower_char_def)
  have d: "descricao snippetSort = None"
    by (simp add: snippetSort_def)
  have "str_includes (toLowerCase (codigo snippetSort)) (toLowerCase ''XS.Sort'')"
    by (simp add: snippetSort_def toLowerCase_def lower_char_def)
  then have c: "containsIgnoringCase (codigo snippetSort) ''XS.Sort''"
    by (simp only: includes_lower_iff)
  note t = text_filter_keeps_exactly_matches [OF h q i]
  from t have 1: "textStep ''XS.Sort'' [snippetSort, snippetMap] =
                    filter (specTextMatch ''XS.Sort'') [snippetSort, snippetMap]"
    by (rule conjunct1)
  from t have "\<forall>snippet \<in> set [snippetSort, snippetMap].
            descricao snippet = None \<longrightarrow>
            containsIgnoringCase (titulo snippet) ''XS.Sort'' \<or>
              containsIgnoringCase (codigo snippet) ''XS.Sort'' \<longrightarrow>
            snippet \<in> set (textStep ''XS.Sort'' [snippetSort, snippetMap])"
    by blast
  with d c have 3: "snippetSort \<in> set (textStep ''XS.Sort'' [snippetSort, snippetMap])"
    by simp
  from h q i 1 e d c 3 show ?thesis by blast
qed

text \<open>
  C3. For a non-empty tag selection, the tag step keeps exactly the snippets whose tag
  identifiers include the identifier of every selected tag; so does the whole filter when
  text and language are not restricted.
\<close>

theorem tag_filter_keeps_exactly_supersets:
  assumes "required \<noteq> []"
  shows "tagStep required input =
           filter (\<lambda>snippet. requiredTagIds required \<subseteq> snippetTagIds snippet) input \<and>
         applyFilters input [] ''all'' required =
           filter (\<lambda>snippet. requiredTagIds required \<subseteq> snippetTagIds snippet) input"
proof -
  have m: "tagMatch required =
             (\<lambda>snippet. requiredTagIds required \<subseteq> snippetTagIds snippet)"
    by (rule ext) (rule tagMatch_superset)
  show ?thesis
    using assms by (simp add: applyFilters_tags_only tagStep_def m)
qed

theorem tag_filter_witness:
  "[tagUtil] \<noteq> [] \<and>
   tagStep [tagUtil] [snippetSort, snippetMap] =
     filter (\<lambda>snippet. requiredTagIds [tagUtil] \<subseteq> snippetTagIds snippet)
       [snippetSort, snippetMap] \<and>
   tagStep [tagUtil] [snippetSort, snippetMap] = [snippetMap]"
proof -
  have h: "[tagUtil] \<noteq> []" by simp
  have e: "tagStep [tagUtil] [snippetSort, snippetMap] = [snippetMap]"
    by (simp add: tagStep_def tagMatch_def snippetSort_def snippetMap_def tagUtil_def)
  note t = tag_filter_keeps_exactly_supersets [OF h, of "[snippetSort, snippetMap]"]
  from t have 1: "tagStep [tagUtil] [snippetSort, snippetMap] =
     filter (\<lambda>snippet. requiredTagIds [tagUtil] \<subseteq> snippetTagIds snippet)
       [snippetSort, snippetMap]"
    by (rule conjunct1)
  from h 1 e show ?thesis by blast
qed

text \<open>
  C4. Filtering by a query, a language selection and a tag selection together gives the
  snippets that each of the three filters, applied to the same input on its own, keeps: the
  result is the input restricted to the members of all three results, and as sets it is
  their intersection.
\<close>

theorem filters_combine_conjunctively:
  "applyFilters input query language required =
     filter (\<lambda>snippet. snippet \<in> set (applyFilters input query ''all'' []) \<and>
                       snippet \<in> set (applyFilters input [] language []) \<and>
                       snippet \<in> set (applyFilters input [] ''all'' required)) input \<and>
   set (applyFilters input query language required) =
     set (applyFilters input query ''all'' []) \<inter>
     set (applyFilters input [] language []) \<inter>
     set (applyFilters input [] ''all'' required)"
proof -
  have 1: "applyFilters input query language required =
     filter (\<lambda>snippet. snippet \<in> set (applyFilters input query ''all'' []) \<and>
                       snippet \<in> set (applyFilters input [] language []) \<and>
                       snippet \<in> set (applyFilters input [] ''all'' required)) input"
    unfolding applyFilters_filter [of input query language required]
    by (rule filter_cong) (auto simp: applyFilters_filter)
  have 2: "set (applyFilters input query language required) =
     set (applyFilters input query ''all'' []) \<inter>
     set (applyFilters input [] language []) \<inter>
     set (applyFilters input [] ''all'' required)"
    by (auto simp: applyFilters_filter)
  from 1 2 show ?thesis by (rule conjI)
qed

theorem filters_combine_witness:
  "applyFilters [snippetSort, snippetMap] ''map'' ''2'' [tagUtil] = [snippetMap] \<and>
   set (applyFilters [snippetSort, snippetMap] ''map'' ''2'' [tagUtil]) =
     set (applyFilters [snippetSort, snippetMap] ''map'' ''all'' []) \<inter>
     set (applyFilters [snippetSort, snippetMap] [] ''2'' []) \<inter>
     set (applyFilters [snippetSort, snippetMap] [] ''all'' [tagUtil])"
proof -
  have e: "applyFilters [snippetSort, snippetMap] ''map'' ''2'' [tagUtil] = [snippetMap]"
    by code_simp
  from filters_combine_conjunctively [of "[snippetSort, snippetMap]" "''map''" "''2''" "[tagUtil]"] e
  show ?thesis by simp
qed

text \<open>
  C5. With an empty query, the language selection \<open>all\<close> and no selected tag the filter
  returns its input as it is, in the same order; the empty input gives the empty result.
\<close>

theorem empty_criteria_identity:
  "applyFilters input [] ''all'' [] = input \<and> applyFilters [] [] ''all'' [] = []"
  by (simp add: applyFilters_def textStep_Nil languageStep_all tagStep_Nil)

theorem empty_criteria_witness:
  "applyFilters [snippetSort, snippetMap] [] ''all'' [] = [snippetSort, snippetMap]"
  using empty_criteria_identity [of "[snippetSort, snippetMap]"] by simp

text \<open>
  C6. Selecting a language, whose value in the select box is the decimal text of its
  identifier, with no query and no tag keeps exactly the snippets with that language
  identifier. More generally a selection other than the empty text and \<open>all\<close> keeps exactly
  the snippets whose language identifier is the number \<^verbatim>\<open>parseInt\<close> reads from it.
\<close>

theorem language_filter_keeps_exactly_language:
  "applyFilters input [] (toString n) [] = filter (\<lambda>snippet. id_linguagem snippet = n) input \<and>
   (language \<noteq> [] \<and> language \<noteq> ''all'' \<longrightarrow>
      applyFilters input [] language [] =
        filter (\<lambda>snippet. parseInt language = Some (id_linguagem snippet)) input)"
proof -
  have m: "languageMatch (toString n) = (\<lambda>snippet. id_linguagem snippet = n)"
    by (rule ext) (rule languageMatch_toString)
  have 1: "applyFilters input [] (toString n) [] =
             filter (\<lambda>snippet. id_linguagem snippet = n) input"
    by (simp add: applyFilters_language_only languageStep_def toString_not_Nil toString_not_all m)
  have g: "languageMatch language = (\<lambda>snippet. parseInt language = Some (id_linguagem snippet))"
    by (rule ext) (auto simp: languageMatch_def split: option.splits)
  have 2: "language \<noteq> [] \<and> language \<noteq> ''all'' \<longrightarrow>
      applyFilters input [] language [] =
        filter (\<lambda>snippet. parseInt language = Some (id_linguagem snippet)) input"
    by (simp add: applyFilters_language_only languageStep_def g)
  from 1 2 show ?thesis by (rule conjI)
qed

theorem language_filter_witness:
  "toString 2 = ''2'' \<and> ''2'' \<noteq> [] \<and> ''2'' \<noteq> ''all'' \<and>
   applyFilters [snippetSort, snippetMap] [] ''2'' [] =
     filter (\<lambda>snippet. id_linguagem snippet = 2) [snippetSort, snippetMap] \<and>
   applyFilters [snippetSort, snippetMap] [] ''2'' [] =
     filter (\<lambda>snippet. parseInt ''2'' = Some (id_linguagem snippet)) [snippetSort, snippetMap] \<and>
   applyFilters [snippetSort, snippetMap] [] ''2'' [] = [snippetMap]"
proof -
  have t: "toString 2 = ''2''" by code_simp
  have e: "applyFilters [snippetSort, snippetMap] [] ''2'' [] = [snippetMap]" by code_simp
  from language_filter_keeps_exactly_language [of "[snippetSort, snippetMap]" 2 "''2''"] t e
  show ?thesis by simp
qed

text \<open>
  C7. Whatever the criteria, the result of the filter is a subsequence of its input: its
  elements are elements of the input, in the order they have there.
\<close>

theorem filter_result_is_subsequence:
  "subseq (applyFilters input query language required) input \<and>
   set (applyFilters input query language required) \<subseteq> set input"
  by (simp add: applyFilters_filter)

theorem filter_result_subsequence_witness:
  "subseq (applyFilters [snippetSort, snippetMap] ''m'' ''all'' []) [snippetSort, snippetMap] \<and>
   applyFilters [snippetSort, snippetMap] ''m'' ''all'' [] = [snippetMap]"
proof -
  have e: "applyFilters [snippetSort, snippetMap] ''m'' ''all'' [] = [snippetMap]" by code_simp
  from filter_result_is_subsequence [of "[snippetSort, snippetMap]" "''m''" "''all''" "[]"] e
  show ?thesis by simp
qed

text \<open>
  C10. The empty language selection is treated as the selection \<open>all\<close>: the language step
  keeps every snippet and the whole filter gives what it gives for \<open>all\<close>, although the empty
  text is not \<open>all\<close> and \<^verbatim>\<open>parseInt\<close> reads no number from it.
\<close>

theorem empty_language_is_all:
  "languageStep [] input = input \<and>
   applyFilters input query [] required = applyFilters input query ''all'' required \<and>
   [] \<noteq> ''all'' \<and> parseInt [] = None \<and> toString n \<noteq> []"
  by (simp add: applyFilters_def languageStep_all languageStep_empty parseInt_def toString_not_Nil)

theorem empty_language_witness:
  "languageStep [] [snippetSort, snippetMap] = [snippetSort, snippetMap] \<and>
   applyFilters [snippetSort, snippetMap] ''map'' [] [] = [snippetMap]"
proof -
  have e: "applyFilters [snippetSort, snippetMap] ''map'' ''all'' [] = [snippetMap]" by code_simp
  from empty_language_is_all [of "[snippetSort, snippetMap]" "''map''" "[]"] e
  show ?thesis by simp
qed

section \<open>The claims about the tag helper\<close>

text \<open>
  C2. The helper is to trim the name, do nothing when the trimmed name is empty, and otherwise
  look the name up without regard to case, selecting the tag it finds and creating a tag only
  when it finds none. The code trims in the guard and in the insertion but looks up the name
  as typed. With the tags python and util loaded and the name typed with a leading space, the
  lookup misses although the trimmed name is the name of the tag python: a second tag python is
  inserted and selected, or, when the insertion is refused, a toast is shown and nothing is
  selected. Typed without the space the same name selects the loaded tag and inserts nothing.
\<close>

theorem addTag_looks_up_untrimmed_name:
  "trim '' python'' = nome tagPython \<and>
   fst (addTag (Data tagPython2) (setNewTag '' python'' formExample)) =
     formExample\<lparr>SnippetForm.allTags := [tagPython, tagUtil, tagPython2],
                 SnippetForm.selectedTags := [tagUtil, tagPython2]\<rparr> \<and>
   snd (addTag (Data tagPython2) (setNewTag '' python'' formExample)) =
     [Write (InsertTag ''python'')] \<and>
   addTag (Failed ''duplicate key'') (setNewTag '' python'' formExample) =
     (setNewTag '' python'' formExample,
      [Write (InsertTag ''python''), Notify (ErroAoCriarTag ''duplicate key'')]) \<and>
   addTag (Data tagPython2) (setNewTag ''python'' formExample) =
     (formExample\<lparr>SnippetForm.selectedTags := [tagUtil, tagPython]\<rparr>, [])"
  by (simp add: addTag_def addTagIn_def setNewTag_def formExample_def tagPython_def tagUtil_def
      tagPython2_def trim_def isWhiteSpace_def toLowerCase_def lower_char_def)

text \<open>
  C8. A name that the lookup matches to a loaded tag is entered twice in succession. Neither
  call sends an insertion, the loaded tags stay as they are, and the second call leaves the
  selection as the first call left it. When the name is not blank (a blank name is the no-op
  of the helper) and the selection held no tag identifier twice, the matched tag is in the
  selection exactly once afterwards. This holds when the second call is made after the form
  has been rendered again and the name typed again, and when it is made by the handler of the
  same render as the first.
\<close>

theorem tag_added_twice_selected_once:
  assumes hit: "find (\<lambda>tag. toLowerCase (nome tag) = toLowerCase name) (SnippetForm.allTags f)
                  = Some existingTag"
  shows "snd (addTag r1 (setNewTag name f)) = [] \<and>
         snd (addTag r2 (setNewTag name (fst (addTag r1 (setNewTag name f))))) = [] \<and>
         snd (addTagIn r2 (setNewTag name f) (fst (addTag r1 (setNewTag name f)))) = [] \<and>
         SnippetForm.allTags (fst (addTag r2 (setNewTag name (fst (addTag r1 (setNewTag name f))))))
           = SnippetForm.allTags f \<and>
         SnippetForm.allTags (fst (addTagIn r2 (setNewTag name f) (fst (addTag r1 (setNewTag name f)))))
           = SnippetForm.allTags f \<and>
         SnippetForm.selectedTags
             (fst (addTag r2 (setNewTag name (fst (addTag r1 (setNewTag name f))))))
           = SnippetForm.selectedTags (fst (addTag r1 (setNewTag name f))) \<and>
         SnippetForm.selectedTags
             (fst (addTagIn r2 (setNewTag name f) (fst (addTag r1 (setNewTag name f)))))
           = SnippetForm.selectedTags (fst (addTag r1 (setNewTag name f))) \<and>
         (trim name \<noteq> [] \<and> distinct (map id_tag (SnippetForm.selectedTags f)) \<longrightarrow>
            occurrences (id_tag existingTag)
              (SnippetForm.selectedTags
                 (fst (addTag r2 (setNewTag name (fst (addTag r1 (setNewTag name f))))))) = 1 \<and>
            occurrences (id_tag existingTag)
              (SnippetForm.selectedTags
                 (fst (addTagIn r2 (setNewTag name f) (fst (addTag r1 (setNewTag name f)))))) = 1)"
proof (cases "trim name = []")
  case True
  then have noop: "addTagIn r (setNewTag name g) g' = (g', [])" for r g g'
    by (simp add: addTagIn_def setNewTag_fields)
  show ?thesis
    using True by (simp add: addTag_def noop setNewTag_fields)
next
  case False
  define f0 where "f0 = setNewTag name f"
  define f1 where "f1 = fst (addTag r1 f0)"
  define f1' where "f1' = setNewTag name f1"
  have n0: "trim (newTag f0) \<noteq> []"
    using False by (simp add: f0_def setNewTag_fields)
  have sel0: "SnippetForm.selectedTags f0 = SnippetForm.selectedTags f"
    and all0: "SnippetForm.allTags f0 = SnippetForm.allTags f"
    by (simp_all add: f0_def setNewTag_fields)
  have h0: "find (\<lambda>tag. toLowerCase (nome tag) = toLowerCase (newTag f0)) (SnippetForm.allTags f0)
              = Some existingTag"
    using hit by (simp add: f0_def setNewTag_fields)
  note first = addTag_hit [OF n0 h0, of r1]
  note stale = addTagIn_hit [OF n0 h0, of r2 f1]
  have a: "snd (addTag r1 f0) = []"
    by (simp add: first)
  have all1: "SnippetForm.allTags f1 = SnippetForm.allTags f"
    by (simp add: f1_def first all0)
  have sel1: "SnippetForm.selectedTags f1 =
                (if id_tag existingTag \<notin> id_tag ` set (SnippetForm.selectedTags f)
                 then SnippetForm.selectedTags f @ [existingTag] else SnippetForm.selectedTags f)"
    by (simp add: f1_def first sel0)
  have in1: "id_tag existingTag \<in> id_tag ` set (SnippetForm.selectedTags f1)"
    by (simp add: sel1)
  have occ1: "occurrences (id_tag existingTag) (SnippetForm.selectedTags f1) = 1"
    if "distinct (map id_tag (SnippetForm.selectedTags f))"
    using that by (simp add: sel1 occurrences_snoc occurrences_distinct)
  have n1: "trim (newTag f1') \<noteq> []"
    using False by (simp add: f1'_def setNewTag_fields)
  have sel1': "SnippetForm.selectedTags f1' = SnippetForm.selectedTags f1"
    and all1': "SnippetForm.allTags f1' = SnippetForm.allTags f"
    by (simp_all add: f1'_def setNewTag_fields all1)
  have h1: "find (\<lambda>tag. toLowerCase (nome tag) = toLowerCase (newTag f1')) (SnippetForm.allTags f1')
              = Some existingTag"
    using hit by (simp add: all1') (simp add: f1'_def setNewTag_fields)
  note again = addTag_hit [OF n1 h1, of r2]
  have b: "snd (addTag r2 f1') = []"
    by (simp add: again)
  have c: "snd (addTagIn r2 f0 f1) = []"
    by (simp add: stale)
  have d: "SnippetForm.allTags (fst (addTag r2 f1')) = SnippetForm.allTags f"
    by (simp add: again all1')
  have e: "SnippetForm.allTags (fst (addTagIn r2 f0 f1)) = SnippetForm.allTags f"
    by (simp add: stale all1)
  have g: "SnippetForm.selectedTags (fst (addTag r2 f1')) = SnippetForm.selectedTags f1"
    using in1 by (simp add: again sel1')
  have i: "SnippetForm.selectedTags (fst (addTagIn r2 f0 f1)) = SnippetForm.selectedTags f1"
    by (simp add: stale sel0 sel1)
  have o: "occurrences (id_tag existingTag) (SnippetForm.selectedTags (fst (addTag r2 f1'))) = 1"
    and o': "occurrences (id_tag existingTag) (SnippetForm.selectedTags (fst (addTagIn r2 f0 f1))) = 1"
    if "distinct (map id_tag (SnippetForm.selectedTags f))"
    using occ1 [OF that] by (simp_all only: g i)
  from a b c d e g i o o' show ?thesis
    unfolding f1'_def f1_def f0_def by blast
qed

theorem tag_added_twice_witness:
  "find (\<lambda>tag. toLowerCase (nome tag) = toLowerCase ''Python'') (SnippetForm.allTags formExample)
     = Some tagPython \<and>
   trim ''Python'' \<noteq> [] \<and>
   distinct (map id_tag (SnippetForm.selectedTags formExample)) \<and>
   SnippetForm.selectedTags (fst (addTag (Data tagPython2) (setNewTag ''Python'' formExample)))
     = [tagUtil, tagPython] \<and>
   SnippetForm.selectedTags
     (fst (addTag (Data tagPython2)
        (setNewTag ''Python'' (fst (addTag (Data tagPython2) (setNewTag ''Python'' formExample))))))
     = [tagUtil, tagPython] \<and>
   occurrences (id_tag tagPython)
     (SnippetForm.selectedTags
        (fst (addTag (Data tagPython2)
           (setNewTag ''Python'' (fst (addTag (Data tagPython2) (setNewTag ''Python'' formExample)))))))
     = 1"
proof -
  have h: "find (\<lambda>tag. toLowerCase (nome tag) = toLowerCase ''Python'') (SnippetForm.allTags formExample)
             = Some tagPython"
    by (simp add: formExample_def tagPython_def tagUtil_def toLowerCase_def lower_char_def)
  have n: "trim ''Python'' \<noteq> []"
    by (simp add: trim_def isWhiteSpace_def)
  have d: "distinct (map id_tag (SnippetForm.selectedTags formExample))"
    by (simp add: formExample_def)
  have e: "SnippetForm.selectedTags (fst (addTag (Data tagPython2) (setNewTag ''Python'' formExample)))
     = [tagUtil, tagPython]"
    by (simp add: addTag_def addTagIn_def setNewTag_def formExample_def tagPython_def tagUtil_def
        trim_def isWhiteSpace_def toLowerCase_def lower_char_def)
  note t = tag_added_twice_selected_once [OF h, of "Data tagPython2" "Data tagPython2"]
  from t e have s: "SnippetForm.selectedTags
     (fst (addTag (Data tagPython2)
        (setNewTag ''Python'' (fst (addTag (Data tagPython2) (setNewTag ''Python'' formExample))))))
     = [tagUtil, tagPython]"
    by simp
  from t n d have o: "occurrences (id_tag tagPython)
     (SnippetForm.selectedTags
        (fst (addTag (Data tagPython2)
           (setNewTag ''Python'' (fst (addTag (Data tagPython2) (setNewTag ''Python'' formExample)))))))
     = 1"
    by blast
  from h n d e s o show ?thesis by blast
qed

section \<open>The claim about failing remote calls\<close>

text \<open>
  C9. A remote call that fails is to leave the state as it is and to show a notification.
  The deletion of the tag relations, awaited in \<^verbatim>\<open>handleDelete\<close> and in the update branch of
  \<^verbatim>\<open>handleSubmit\<close>, is the one call whose \<^verbatim>\<open>error\<close> is not read, where every other call is
  followed by \<^verbatim>\<open>if (error) throw error\<close>. When that deletion resolves with an error and the
  calls after it succeed, \<^verbatim>\<open>handleDelete\<close> shows the toast of a successful deletion and
  replaces the snippets by the reloaded ones, and \<^verbatim>\<open>handleSubmit\<close> shows the toast of a
  successful update, reloads the snippets and closes the form: the failure is not notified
  and the state changes.
\<close>

theorem ignored_delete_error_reports_success:
  "errorOf (Failed ''denied'' :: unit Awaited) = Some ''denied'' \<and>
   handleDelete 1 (Failed ''denied'') (Data ()) (Data (Some [snippetMap])) dashboardExample =
     (dashboardExample\<lparr>Dashboard.snippets := [snippetMap]\<rparr>,
      [Write (DeleteSnippetTags 1), Write (DeleteSnippet 1), Notify SnippetExcluido]) \<and>
   fst (handleSubmit (Some ''7'') (Some snippetSort) (Data snippetSort) (Failed ''denied'') (Data ())
          (Data (Some [snippetMap]))
          (dashboardExample, formExample\<lparr>SnippetForm.selectedTags := []\<rparr>)) =
     (dashboardExample\<lparr>Dashboard.snippets := [snippetMap], showForm := False,
                        editingSnippet := None\<rparr>,
      formExample\<lparr>SnippetForm.selectedTags := [], SnippetForm.loading := False\<rparr>) \<and>
   snd (handleSubmit (Some ''7'') (Some snippetSort) (Data snippetSort) (Failed ''denied'') (Data ())
          (Data (Some [snippetMap]))
          (dashboardExample, formExample\<lparr>SnippetForm.selectedTags := []\<rparr>)) =
     [Write (UpdateSnippet 1 (''Sort'', None, ''xs.sort()'', Some 1)),
      Write (DeleteSnippetTags 1), Notify SnippetAtualizado] \<and>
   Dashboard.snippets dashboardExample \<noteq> [snippetMap]"
  by (simp add: errorOf_def handleDelete_def loadSnippets_def orEmpty_def handleSubmit_def
      trySave_def saveTags_def handleFormSave_def handleFormClose_def formIncomplete_def
      snippetFields_def trim_def isWhiteSpace_def formExample_def dashboardExample_def
      snippetSort_def snippetMap_def)

end
